theory Spec2Isabelle
  imports Complex_Main
begin

section \<open>edward/models/models.py: model wrappers and the variational container\<close>

text \<open>
  The Python exceptions that the modelled code can raise are values of \<open>error\<close>; a
  function that may raise returns \<open>error + 'a\<close> with \<open>Inl\<close> for the exception.
  \<open>BackendError\<close> stands for whatever an external engine (PyMC3, Stan, a
  distribution object) raises. NumPy and TensorFlow floats are modelled as \<open>real\<close>;
  the one narrowing conversion of the source, storing into a \<open>float32\<close> array, is a
  parameter \<open>float32\<close> of the functions that do it.
\<close>

datatype error =
    NotImplementedError
  | IndexError
  | ValueError
  | TypeError
  | AttributeError
  | BackendError string

subsection \<open>StanModel\<close>

text \<open>
  A value bound to a parameter in the \<open>OrderedDict\<close> that \<open>_py_log_prob\<close> builds:
  \<open>float(z[idx])\<close> or \<open>z[idx:(idx+elems)].reshape(dim)\<close>.
\<close>

datatype par_value = Scalar real | Block "nat list" "real list"

type_synonym z_dict = "(string \<times> par_value) list"

text \<open>
  The object returned by \<open>pystan.stan\<close>, with the four members the wrapper uses.
  The second argument of \<open>fit_log_prob\<close> is \<open>adjust_transform\<close>.
\<close>

record 'u stan_fit =
  par_dims :: "nat list list"
  model_pars :: "string list"
  unconstrain_pars :: "z_dict \<Rightarrow> error + 'u"
  fit_log_prob :: "'u \<Rightarrow> bool \<Rightarrow> error + real"



text \<open>
  The attributes of a \<open>StanModel\<close> object. \<open>file_attr\<close> (the attribute \<open>file\<close>),
  \<open>model_code\<close> and \<open>model\<close>
  are \<open>None\<close> while the object has no such attribute (which is what \<open>hasattr\<close>
  tests); \<open>stan_num_vars\<close> is the attribute \<open>num_vars\<close>, whose Python value is
  \<open>None\<close> until initialization.
\<close>

record 'u StanModel =
  file_attr :: "string option"
  model_code :: "string option"
  flag_init :: bool
  stan_num_vars :: "nat option"
  model :: "'u stan_fit option"

definition StanModel_init ::
  "string option \<Rightarrow> string option \<Rightarrow> error + 'u StanModel" where
  "StanModel_init file_arg model_code_arg =
     (case file_arg of
        Some f \<Rightarrow>
          Inr \<lparr>file_attr = Some f, model_code = None, flag_init = False,
               stan_num_vars = None, model = None\<rparr>
      | None \<Rightarrow>
          (case model_code_arg of
             Some c \<Rightarrow>
               Inr \<lparr>file_attr = None, model_code = Some c, flag_init = False,
                    stan_num_vars = None, model = None\<rparr>
           | None \<Rightarrow> Inl NotImplementedError))"


text \<open>One summand of \<open>num_vars\<close>: \<open>sum(dim) if sum(dim) != 0 else 1\<close>.\<close>

definition par_size :: "nat list \<Rightarrow> nat" where
  "par_size dims = (if sum_list dims \<noteq> 0 then sum_list dims else 1)"



text \<open>
  \<open>tf.py_func(self._py_log_prob, [zs], [tf.float32])[0]\<close> is a node of the
  TensorFlow graph: it holds \<open>zs\<close> and calls \<open>self._py_log_prob\<close> on it when the
  graph is run (\<open>run_py_func\<close> below).
\<close>

datatype py_func = Py_func "real list list"


text \<open>
  The inner loop of \<open>_py_log_prob\<close>, over \<open>zip(par_dims, model_pars)\<close>, for one row
  \<open>z\<close>: \<open>idx\<close> and the dictionary are the loop's variables. \<open>z[idx]\<close> raises
  IndexError out of range; the slice \<open>z[idx:(idx+elems)]\<close> never raises and is shorter
  than \<open>elems\<close> when the row ends early; \<open>reshape(dim)\<close> raises ValueError unless the
  slice has as many entries as the shape \<open>dim\<close> has (the product of \<open>dim\<close>). The
  loop variable \<open>dim\<close> is \<open>dims\<close> here. An
  assignment to an \<open>OrderedDict\<close> replaces the value of a key that is present and
  appends a new key at the end.
\<close>

fun dict_set :: "z_dict \<Rightarrow> string \<Rightarrow> par_value \<Rightarrow> z_dict" where
  "dict_set [] k v = [(k, v)]"
| "dict_set ((k', v') # d) k v = (if k' = k then (k, v) # d else (k', v') # dict_set d k v)"

fun z_dict_loop :: "(nat list \<times> string) list \<Rightarrow> real list \<Rightarrow> nat \<Rightarrow> z_dict \<Rightarrow> error + z_dict" where
  "z_dict_loop [] z idx d = Inr d"
| "z_dict_loop ((dims, par) # rest) z idx d =
     (let elems = sum_list dims in
      if elems = 0 then
        (if idx < length z then z_dict_loop rest z (idx + 1) (dict_set d par (Scalar (z ! idx)))
         else Inl IndexError)
      else
        (let slice = take elems (drop idx z) in
         if length slice = prod_list dims
         then z_dict_loop rest z (idx + elems) (dict_set d par (Block dims slice))
         else Inl ValueError))"

text \<open>The body of the outer loop: the value stored in \<open>lp[b]\<close> for the row \<open>z\<close>.\<close>

definition row_log_prob :: "'u stan_fit \<Rightarrow> real list \<Rightarrow> error + real" where
  "row_log_prob m z =
     (case z_dict_loop (zip (par_dims m) (model_pars m)) z 0 [] of
        Inl e \<Rightarrow> Inl e
      | Inr d \<Rightarrow>
          (case unconstrain_pars m d of
             Inl e \<Rightarrow> Inl e
           | Inr z_unconst \<Rightarrow> fit_log_prob m z_unconst False))"

text \<open>
  The outer loop, \<open>for b, z in enumerate(zs)\<close>, with the array \<open>lp\<close> it fills.
  \<open>self.model\<close> is read in every iteration and raises AttributeError on an object
  that was never initialized.
\<close>

fun stan_rows ::
  "(real \<Rightarrow> real) \<Rightarrow> 'u StanModel \<Rightarrow> nat \<Rightarrow> real list list \<Rightarrow> real list \<Rightarrow> error + real list" where
  "stan_rows float32 self b [] lp = Inr lp"
| "stan_rows float32 self b (z # zs) lp =
     (case model self of
        None \<Rightarrow> Inl AttributeError
      | Some m \<Rightarrow>
          (case row_log_prob m z of
             Inl e \<Rightarrow> Inl e
           | Inr v \<Rightarrow> stan_rows float32 self (b + 1) zs (lp[b := float32 v])))"

definition StanModel_py_log_prob ::
  "(real \<Rightarrow> real) \<Rightarrow> 'u StanModel \<Rightarrow> real list list \<Rightarrow> error + real list" where
  "StanModel_py_log_prob float32 self zs = stan_rows float32 self 0 zs (replicate (length zs) 0)"

definition run_py_func :: "(real \<Rightarrow> real) \<Rightarrow> 'u StanModel \<Rightarrow> py_func \<Rightarrow> error + real list" where
  "run_py_func float32 self node = (case node of Py_func zs \<Rightarrow> StanModel_py_log_prob float32 self zs)"


subsection \<open>PyMC3Model\<close>

text \<open>
  The attributes of a \<open>PyMC3Model\<close> that \<open>_py_log_prob\<close> and its callers read:
  \<open>pm_num_vars\<close> is \<open>num_vars\<close>, \<open>logp\<close> and \<open>dlogp\<close> are the two functions that
  \<open>bij.mapf\<close> returns, from a flat vector to the log density and to its gradient.
\<close>

record PyMC3Model =
  pm_num_vars :: nat
  logp :: "real list \<Rightarrow> error + real"
  dlogp :: "real list \<Rightarrow> error + real list"

text \<open>
  \<open>for s in range(n_minibatch): lp[s] = self.logp(zs[s, :])\<close>, with \<open>zs\<close> a
  two-dimensional array given as the list of its rows.
\<close>

function pymc3_rows ::
  "(real \<Rightarrow> real) \<Rightarrow> PyMC3Model \<Rightarrow> real list list \<Rightarrow> nat \<Rightarrow> real list \<Rightarrow> error + real list" where
  "pymc3_rows float32 self zs s lp =
     (if s < length zs then
        (case logp self (zs ! s) of
           Inl e \<Rightarrow> Inl e
         | Inr v \<Rightarrow> pymc3_rows float32 self zs (s + 1) (lp[s := float32 v]))
      else Inr lp)"
  by pat_completeness auto
termination
  by (relation "measure (\<lambda>(float32, self, zs, s, lp). length zs - s)") auto

definition PyMC3Model_py_log_prob ::
  "(real \<Rightarrow> real) \<Rightarrow> PyMC3Model \<Rightarrow> real list list \<Rightarrow> error + real list" where
  "PyMC3Model_py_log_prob float32 self zs =
     (let n_minibatch = length zs in pymc3_rows float32 self zs 0 (replicate n_minibatch 0))"

subsection \<open>Variational\<close>

text \<open>
  What a caller passes as \<open>xs\<close>: a number, or a list or array of such values. A list
  of tensors and a tensor are both an \<open>Arr\<close>, and \<open>xs[l]\<close> is \<open>py_getitem\<close>.
\<close>

datatype pyval = Num real | Arr "pyval list"

fun py_getitem :: "pyval \<Rightarrow> nat \<Rightarrow> error + pyval" where
  "py_getitem (Num r) i = Inl TypeError"
| "py_getitem (Arr vs) i = (if i < length vs then Inr (vs ! i) else Inl IndexError)"

text \<open>
  A distribution object (a layer), as far as \<open>Variational\<close> reads it: four data
  attributes; \<open>has_reparam\<close> and \<open>has_entropy\<close> are
  \<open>'reparam' in layer.__class__.__dict__\<close> and \<open>'entropy' in layer.__class__.__dict__\<close>;
  \<open>isinstance_Normal\<close> is \<open>isinstance(layer, Normal)\<close>; and the three methods, each
  of which may raise. A sample is a value of \<open>'s\<close>, a log density is a vector, an
  entropy is a number.
\<close>

record 's layer =
  layer_shape :: "nat list"
  layer_num_vars :: int
  layer_num_params :: int
  layer_is_multivariate :: bool
  has_reparam :: bool
  has_entropy :: bool
  isinstance_Normal :: bool
  layer_sample :: "int \<Rightarrow> error + 's"
  layer_log_prob :: "pyval \<Rightarrow> error + real list"
  layer_entropy :: "error + real"

record 's Variational =
  layers :: "'s layer list"
  shape :: "nat list list"
  num_vars :: int
  num_params :: int
  is_reparam :: bool
  is_normal :: bool
  is_entropy :: bool
  is_multivariate :: "bool list"

text \<open>
  \<open>__init__\<close>, with \<open>None\<close> for the default \<open>layers=None\<close>. The call of
  \<open>get_session()\<close>, which only makes sure that a TensorFlow session exists, is left
  out. In Python the object keeps the very list it is given and \<open>add\<close> extends
  that list in place; the model follows one container and the list it holds, so a
  list is not shared between two containers here.
\<close>

definition Variational_init :: "'s layer list option \<Rightarrow> 's Variational" where
  "Variational_init layers_arg =
     (case layers_arg of
        None \<Rightarrow>
          \<lparr>layers = [], shape = [], num_vars = 0, num_params = 0, is_reparam = True,
           is_normal = True, is_entropy = True, is_multivariate = []\<rparr>
      | Some ls \<Rightarrow>
          \<lparr>layers = ls,
           shape = map layer_shape ls,
           num_vars = sum_list (map layer_num_vars ls),
           num_params = sum_list (map layer_num_params ls),
           is_reparam = list_all has_reparam ls,
           is_normal = list_all isinstance_Normal ls,
           is_entropy = list_all has_entropy ls,
           is_multivariate = map layer_is_multivariate ls\<rparr>)"

definition Variational_add :: "'s Variational \<Rightarrow> 's layer \<Rightarrow> 's Variational" where
  "Variational_add self layer =
     \<lparr>layers = layers self @ [layer],
      shape = shape self @ [layer_shape layer],
      num_vars = num_vars self + layer_num_vars layer,
      num_params = num_params self + layer_num_params layer,
      is_reparam = (is_reparam self \<and> has_reparam layer),
      is_normal = (is_normal self \<and> isinstance_Normal layer),
      is_entropy = (is_entropy self \<and> has_entropy layer),
      is_multivariate = is_multivariate self @ [layer_is_multivariate layer]\<rparr>"

text \<open>
  What \<open>sample\<close> returns: the result of the only layer as it is (\<open>Bare\<close>), or the
  list of the layers' results (\<open>Listed\<close>).
\<close>

datatype 's samples = Bare 's | Listed "'s list"

text \<open>\<open>[layer.sample(size) for layer in self.layers]\<close>; the first exception ends it.\<close>

fun sample_layers :: "'s layer list \<Rightarrow> int \<Rightarrow> error + 's list" where
  "sample_layers [] size_arg = Inr []"
| "sample_layers (layer # rest) size_arg =
     (case layer_sample layer size_arg of
        Inl e \<Rightarrow> Inl e
      | Inr smp \<Rightarrow>
          (case sample_layers rest size_arg of
             Inl e \<Rightarrow> Inl e
           | Inr smps \<Rightarrow> Inr (smp # smps)))"

definition Variational_sample :: "'s Variational \<Rightarrow> int \<Rightarrow> error + 's samples" where
  "Variational_sample self size_arg =
     (case sample_layers (layers self) size_arg of
        Inl e \<Rightarrow> Inl e
      | Inr smps \<Rightarrow> (if length smps = 1 then Inr (Bare (smps ! 0)) else Inr (Listed smps)))"

text \<open>
  The sum of two vectors in TensorFlow: entry by entry when the lengths agree, a vector
  of length one being broadcast over the other, and an error for any other two lengths.
\<close>

definition tf_add :: "real list \<Rightarrow> real list \<Rightarrow> error + real list" where
  "tf_add a b =
     (if length a = length b then Inr (map2 (+) a b)
      else if length b = 1 then Inr (map (\<lambda>x. x + b ! 0) a)
      else if length a = 1 then Inr (map (\<lambda>y. a ! 0 + y) b)
      else Inl ValueError)"

text \<open>
  \<open>for l, layer in enumerate(self.layers): log_prob += layer.log_prob(xs[l])\<close>; the
  list argument is what is left of \<open>self.layers\<close>, \<open>l\<close> the index of its head.
\<close>

fun log_prob_loop :: "nat \<Rightarrow> 's layer list \<Rightarrow> pyval \<Rightarrow> real list \<Rightarrow> error + real list" where
  "log_prob_loop l [] xs log_prob = Inr log_prob"
| "log_prob_loop l (layer # rest) xs log_prob =
     (case py_getitem xs l of
        Inl e \<Rightarrow> Inl e
      | Inr x \<Rightarrow>
          (case layer_log_prob layer x of
             Inl e \<Rightarrow> Inl e
           | Inr v \<Rightarrow>
               (case tf_add log_prob v of
                  Inl e \<Rightarrow> Inl e
                | Inr log_prob' \<Rightarrow> log_prob_loop (l + 1) rest xs log_prob')))"

text \<open>
  \<open>get_dims\<close> is imported from \<open>edward.util\<close> and is a parameter here: it gives the
  list of the dimensions of a tensor, and \<open>get_dims(xs[0])[0]\<close> raises IndexError when
  that list is empty.
\<close>

definition Variational_log_prob ::
  "(pyval \<Rightarrow> nat list) \<Rightarrow> 's Variational \<Rightarrow> pyval \<Rightarrow> error + real list" where
  "Variational_log_prob get_dims self xs =
     (if length (layers self) = 1 then layer_log_prob (layers self ! 0) xs
      else
        (case py_getitem xs 0 of
           Inl e \<Rightarrow> Inl e
         | Inr x0 \<Rightarrow>
             (case get_dims x0 of
                [] \<Rightarrow> Inl IndexError
              | n_minibatch # _ \<Rightarrow>
                  log_prob_loop 0 (layers self) xs (replicate n_minibatch 0))))"



subsection \<open>Test objects\<close>

text \<open>
  Concrete engines, layers and containers on which the theorems below are evaluated.
  The Stan test engine takes its parameter dimensions and names from the data; its log
  density is the sum of the entries bound in the dictionary. A test layer has a
  log density of \<open>w\<close> times the sum of the entries of each row.
\<close>

definition test_fit :: "nat list list \<Rightarrow> string list \<Rightarrow> z_dict stan_fit" where
  "test_fit dimss names =
     \<lparr>par_dims = dimss, model_pars = names, unconstrain_pars = Inr,
      fit_log_prob = (\<lambda>d adjust_transform.
         Inr (sum_list (map (\<lambda>(k, v). case v of Scalar r \<Rightarrow> r | Block _ rs \<Rightarrow> sum_list rs) d)))\<rparr>"


definition test_pymc3 :: PyMC3Model where
  "test_pymc3 = \<lparr>pm_num_vars = 2, logp = (\<lambda>z. Inr (- sum_list z)),
                 dlogp = (\<lambda>z. Inr (map (\<lambda>_. - 1) z))\<rparr>"

fun pyval_sum :: "pyval \<Rightarrow> real" where
  "pyval_sum (Num r) = r"
| "pyval_sum (Arr vs) = sum_list (map pyval_sum vs)"

fun test_get_dims :: "pyval \<Rightarrow> nat list" where
  "test_get_dims (Num r) = []"
| "test_get_dims (Arr []) = [0]"
| "test_get_dims (Arr (v # vs)) = Suc (length vs) # test_get_dims v"

definition test_layer :: "int \<Rightarrow> bool \<Rightarrow> real \<Rightarrow> real \<Rightarrow> real list list layer" where
  "test_layer nv ent w h =
     \<lparr>layer_shape = [nat nv], layer_num_vars = nv, layer_num_params = 2 * nv,
      layer_is_multivariate = False, has_reparam = True, has_entropy = ent,
      isinstance_Normal = True,
      layer_sample = (\<lambda>n. Inr (replicate (nat n) (replicate (nat nv) 0))),
      layer_log_prob = (\<lambda>x. case x of Num r \<Rightarrow> Inl TypeError
                                 | Arr rows \<Rightarrow> Inr (map (\<lambda>row. w * pyval_sum row) rows)),
      layer_entropy = (if ent then Inr h else Inl NotImplementedError)\<rparr>"

section \<open>Properties\<close>

subsection \<open>Construction of a StanModel\<close>

text \<open>
  C1, as the code has it. \<open>__init__\<close> tests \<open>file\<close> first and \<open>model_code\<close> only
  when \<open>file\<close> is \<open>None\<close>: construction succeeds if and only if at least one of the
  two arguments is supplied, it raises NotImplementedError if and only if neither is,
  and when \<open>file\<close> is supplied the object records \<open>file\<close> alone, whether or not
  \<open>model_code\<close> is supplied with it.
\<close>

theorem StanModel_init_at_least_one:
  "((\<exists>self. (StanModel_init file_arg model_code_arg :: error + 'u StanModel) = Inr self)
      = (file_arg \<noteq> None \<or> model_code_arg \<noteq> None))
   \<and> (((StanModel_init file_arg model_code_arg :: error + 'u StanModel) = Inl NotImplementedError)
      = (file_arg = None \<and> model_code_arg = None))
   \<and> (\<forall>f. file_arg = Some f \<longrightarrow>
        (StanModel_init file_arg model_code_arg :: error + 'u StanModel) =
          Inr \<lparr>file_attr = Some f, model_code = None, flag_init = False,
               stan_num_vars = None, model = None\<rparr>)"
  by (auto simp: StanModel_init_def split: option.splits)

theorem StanModel_init_at_least_one_witness:
  "(\<exists>self. (StanModel_init None (Some ''parameters { real mu; }'') :: error + unit StanModel) = Inr self)
   \<and> (StanModel_init None None :: error + unit StanModel) = Inl NotImplementedError
   \<and> (StanModel_init (Some ''model.stan'') None :: error + unit StanModel) =
        Inr \<lparr>file_attr = Some ''model.stan'', model_code = None, flag_init = False,
             stan_num_vars = None, model = None\<rparr>"
  using StanModel_init_at_least_one [where ?'u = unit, of None "Some ''parameters { real mu; }''"]
    StanModel_init_at_least_one [where ?'u = unit, of None None]
    StanModel_init_at_least_one [where ?'u = unit, of "Some ''model.stan''" None]
  by simp

text \<open>
  C1 as stated fails when both arguments are supplied: construction succeeds, with
  \<open>file\<close> recorded and \<open>model_code\<close> dropped.
\<close>

theorem StanModel_init_both_counterexample:
  "(StanModel_init (Some ''model.stan'') (Some ''parameters { real mu; }'') :: error + unit StanModel) =
     Inr \<lparr>file_attr = Some ''model.stan'', model_code = None, flag_init = False,
          stan_num_vars = None, model = None\<rparr>"
  by (simp add: StanModel_init_def)

subsection \<open>The aggregate fields of a Variational container\<close>

lemma foldl_Variational_add:
  "foldl Variational_add c ls =
     \<lparr>layers = layers c @ ls,
      shape = shape c @ map layer_shape ls,
      num_vars = num_vars c + sum_list (map layer_num_vars ls),
      num_params = num_params c + sum_list (map layer_num_params ls),
      is_reparam = (is_reparam c \<and> list_all has_reparam ls),
      is_normal = (is_normal c \<and> list_all isinstance_Normal ls),
      is_entropy = (is_entropy c \<and> list_all has_entropy ls),
      is_multivariate = is_multivariate c @ map layer_is_multivariate ls\<rparr>"
proof (induction ls arbitrary: c)
  case Nil
  show ?case by simp
next
  case (Cons l ls)
  show ?case
    unfolding foldl_Cons Cons.IH
    by (simp add: Variational_add_def add.assoc)
qed

lemma Variational_init_fields:
  "layers (Variational_init init_layers) = (case init_layers of None \<Rightarrow> [] | Some ls \<Rightarrow> ls)"
  "shape (Variational_init init_layers) = map layer_shape (layers (Variational_init init_layers))"
  "num_vars (Variational_init init_layers) = sum_list (map layer_num_vars (layers (Variational_init init_layers)))"
  "num_params (Variational_init init_layers) = sum_list (map layer_num_params (layers (Variational_init init_layers)))"
  "is_reparam (Variational_init init_layers) = list_all has_reparam (layers (Variational_init init_layers))"
  "is_normal (Variational_init init_layers) = list_all isinstance_Normal (layers (Variational_init init_layers))"
  "is_entropy (Variational_init init_layers) = list_all has_entropy (layers (Variational_init init_layers))"
  "is_multivariate (Variational_init init_layers) = map layer_is_multivariate (layers (Variational_init init_layers))"
  by (simp_all add: Variational_init_def split: option.splits)

text \<open>
  C4. After any sequence \<open>ls\<close> of \<open>add\<close> calls on a container built by
  \<open>__init__\<close> (with or without a list of layers), the layers are the initial layers
  followed by \<open>ls\<close>, and every aggregate field is the fold over the current layers:
  \<open>shape\<close> and \<open>is_multivariate\<close> are the lists of the layers' values, \<open>num_vars\<close> and
  \<open>num_params\<close> the sums, and the three flags the conjunctions over all layers (true
  for no layers). So \<open>is_entropy\<close> is false exactly when some layer lacks the
  entropy capability, and one more \<open>add\<close> adds the layer's \<open>num_vars\<close> to the
  container's.
\<close>

theorem Variational_add_keeps_aggregates:
  assumes "c = foldl Variational_add (Variational_init init_layers) ls"
  shows "layers c = (case init_layers of None \<Rightarrow> [] | Some ls0 \<Rightarrow> ls0) @ ls
    \<and> shape c = map layer_shape (layers c)
    \<and> num_vars c = sum_list (map layer_num_vars (layers c))
    \<and> num_params c = sum_list (map layer_num_params (layers c))
    \<and> is_multivariate c = map layer_is_multivariate (layers c)
    \<and> is_reparam c = list_all has_reparam (layers c)
    \<and> is_entropy c = list_all has_entropy (layers c)
    \<and> is_normal c = list_all isinstance_Normal (layers c)
    \<and> ((is_entropy c = False) = (\<exists>l\<in>set (layers c). \<not> has_entropy l))
    \<and> num_vars (Variational_add c layer) = num_vars c + layer_num_vars layer"
proof -
  let ?c0 = "Variational_init init_layers"
  have l: "layers c = layers ?c0 @ ls"
    and s: "shape c = shape ?c0 @ map layer_shape ls"
    and nv: "num_vars c = num_vars ?c0 + sum_list (map layer_num_vars ls)"
    and np: "num_params c = num_params ?c0 + sum_list (map layer_num_params ls)"
    and rp: "is_reparam c = (is_reparam ?c0 \<and> list_all has_reparam ls)"
    and nm: "is_normal c = (is_normal ?c0 \<and> list_all isinstance_Normal ls)"
    and en: "is_entropy c = (is_entropy ?c0 \<and> list_all has_entropy ls)"
    and mv: "is_multivariate c = is_multivariate ?c0 @ map layer_is_multivariate ls"
    unfolding assms foldl_Variational_add by simp_all
  have 1: "layers c = (case init_layers of None \<Rightarrow> [] | Some ls0 \<Rightarrow> ls0) @ ls"
    unfolding l Variational_init_fields(1) ..
  have 2: "shape c = map layer_shape (layers c)"
    unfolding s l Variational_init_fields(2) by simp
  have 3: "num_vars c = sum_list (map layer_num_vars (layers c))"
    unfolding nv l Variational_init_fields(3) by simp
  have 4: "num_params c = sum_list (map layer_num_params (layers c))"
    unfolding np l Variational_init_fields(4) by simp
  have 5: "is_multivariate c = map layer_is_multivariate (layers c)"
    unfolding mv l Variational_init_fields(8) by simp
  have 6: "is_reparam c = list_all has_reparam (layers c)"
    unfolding rp l Variational_init_fields(5) by simp
  have 7: "is_entropy c = list_all has_entropy (layers c)"
    unfolding en l Variational_init_fields(7) by simp
  have 8: "is_normal c = list_all isinstance_Normal (layers c)"
    unfolding nm l Variational_init_fields(6) by simp
  have 9: "(is_entropy c = False) = (\<exists>l\<in>set (layers c). \<not> has_entropy l)"
    unfolding 7 by (simp add: list_all_iff)
  have 10: "num_vars (Variational_add c layer) = num_vars c + layer_num_vars layer"
    by (simp add: Variational_add_def)
  from 1 2 3 4 5 6 7 8 9 10 show ?thesis by blast
qed


theorem Variational_add_keeps_aggregates_witness:
  "num_vars (Variational_init (Some [test_layer 5 True 1 0])) = 5
   \<and> num_vars (foldl Variational_add (Variational_init (Some [test_layer 5 True 1 0]))
        [test_layer 2 False 1 0]) = 7
   \<and> is_entropy (foldl Variational_add (Variational_init (Some [test_layer 5 True 1 0]))
        [test_layer 2 False 1 0]) = False
   \<and> is_entropy (foldl Variational_add (Variational_init None)
        [test_layer 1 True 1 0, test_layer 2 True 1 0, test_layer 3 True 1 0]) = True"
proof -
  have sel: "layer_num_vars (test_layer nv ent w h) = nv" "has_entropy (test_layer nv ent w h) = ent"
    for nv ent w h
    by (simp_all add: test_layer_def)
  show ?thesis
    using Variational_add_keeps_aggregates [OF refl, of "Some [test_layer 5 True 1 0]" "[]"]
      Variational_add_keeps_aggregates [OF refl, of "Some [test_layer 5 True 1 0]"
        "[test_layer 2 False 1 0]"]
      Variational_add_keeps_aggregates [OF refl, of None
        "[test_layer 1 True 1 0, test_layer 2 True 1 0, test_layer 3 True 1 0]"]
    by (simp add: sel)
qed

text \<open>
  C10. \<open>Variational(layers=[L1, ..., Ln])\<close> and \<open>Variational()\<close> followed by
  \<open>add(L1)\<close>, ..., \<open>add(Ln)\<close> are the same object: all eight fields agree.
\<close>

theorem Variational_init_eq_adds:
  "Variational_init (Some ls) = foldl Variational_add (Variational_init None) ls"
  by (simp add: foldl_Variational_add) (simp add: Variational_init_def)

subsection \<open>Entropy, samples and log density of a Variational container\<close>

lemma test_layer_sel:
  "layer_entropy (test_layer nv ent w h) = (if ent then Inr h else Inl NotImplementedError)"
  "layer_sample (test_layer nv ent w h) n = Inr (replicate (nat n) (replicate (nat nv) 0))"
  "layer_log_prob (test_layer nv ent w h) (Arr rows) = Inr (map (\<lambda>row. w * pyval_sum row) rows)"
  by (simp_all add: test_layer_def)





lemma sample_layers_map:
  "map (\<lambda>l. layer_sample l n) ls = map Inr smps \<Longrightarrow> sample_layers ls n = Inr smps"
proof (induction ls arbitrary: smps)
  case Nil
  then show ?case by simp
next
  case (Cons l ls)
  then obtain s ss where "smps = s # ss" "layer_sample l n = Inr s"
      "map (\<lambda>l. layer_sample l n) ls = map Inr ss"
    by (cases smps) auto
  with Cons.IH[of ss] show ?case by simp
qed

text \<open>
  C5. For a container with exactly one layer, \<open>sample(size)\<close> is the result of that
  layer's \<open>sample(size)\<close> itself, not a list of length one, and \<open>log_prob(xs)\<close> is the
  result of that layer's \<open>log_prob(xs)\<close>; for a container with more than one layer,
  \<open>sample(size)\<close> is the list of the layers' results, in layer order, one per layer.
\<close>

theorem Variational_single_layer_unwrapped:
  "(layers c = [l] \<longrightarrow>
      Variational_sample c n = (case layer_sample l n of Inl e \<Rightarrow> Inl e | Inr s \<Rightarrow> Inr (Bare s))
      \<and> Variational_log_prob get_dims c xs = layer_log_prob l xs)
   \<and> (1 < length (layers c) \<and> map (\<lambda>l. layer_sample l n) (layers c) = map Inr smps \<longrightarrow>
      Variational_sample c n = Inr (Listed smps) \<and> length smps = length (layers c))"
proof (intro conjI impI)
  assume "layers c = [l]"
  then show "Variational_sample c n = (case layer_sample l n of Inl e \<Rightarrow> Inl e | Inr s \<Rightarrow> Inr (Bare s))"
    by (simp add: Variational_sample_def split: sum.splits)
next
  assume "layers c = [l]"
  then show "Variational_log_prob get_dims c xs = layer_log_prob l xs"
    by (simp add: Variational_log_prob_def)
next
  assume a: "1 < length (layers c) \<and> map (\<lambda>l. layer_sample l n) (layers c) = map Inr smps"
  then have len: "length smps = length (layers c)"
    by (metis length_map)
  from a have "sample_layers (layers c) n = Inr smps" by (simp add: sample_layers_map)
  with a len show "Variational_sample c n = Inr (Listed smps)"
    by (simp add: Variational_sample_def)
  from len show "length smps = length (layers c)" .
qed

theorem Variational_single_layer_unwrapped_witness:
  "Variational_sample (Variational_init (Some [test_layer 3 True 1 0])) 1 = Inr (Bare [[0, 0, 0]])
   \<and> Variational_log_prob test_get_dims (Variational_init (Some [test_layer 3 True 1 0]))
        (Arr [Arr [Num 1, Num 2, Num 3]]) = Inr [6]
   \<and> Variational_sample (Variational_init (Some [test_layer 3 True 1 0, test_layer 1 True 1 0])) 1
        = Inr (Listed [[[0, 0, 0]], [[0]]])"
proof -
  let ?a = "test_layer 3 True 1 0" and ?b = "test_layer 1 True 1 0"
  have sa: "layer_sample ?a 1 = Inr [[0, 0, 0]]" and sb: "layer_sample ?b 1 = Inr [[0]]"
    by (simp_all add: test_layer_sel numeral_3_eq_3)
  have la: "layer_log_prob ?a (Arr [Arr [Num 1, Num 2, Num 3]]) = Inr [6]"
    by (simp add: test_layer_sel)
  have l1: "layers (Variational_init (Some [?a])) = [?a]"
    and l2: "layers (Variational_init (Some [?a, ?b])) = [?a, ?b]"
    by (simp_all add: Variational_init_def)
  show ?thesis
    using Variational_single_layer_unwrapped [of "Variational_init (Some [?a])"
        ?a 1 test_get_dims "Arr [Arr [Num 1, Num 2, Num 3]]"]
      Variational_single_layer_unwrapped [of "Variational_init (Some [?a, ?b])" _ 1 _ _
        "[[[0, 0, 0]], [[0]]]"]
    by (simp add: l1 l2 sa sb la)
qed






subsection \<open>The per-row log density of the adapters\<close>

lemma pymc3_rows_map:
  "s \<le> length zs \<Longrightarrow> length lp = length zs \<Longrightarrow> map (logp self) (drop s zs) = map Inr vs \<Longrightarrow>
     pymc3_rows float32 self zs s lp = Inr (take s lp @ map float32 vs)"
proof (induction float32 self zs s lp arbitrary: vs rule: pymc3_rows.induct)
  case (1 float32 self zs s lp)
  show ?case
  proof (cases "s < length zs")
    case False
    with "1.prems" show ?thesis by (simp add: pymc3_rows.simps[of float32 self zs s lp])
  next
    case True
    then have "drop s zs = zs ! s # drop (Suc s) zs" by (simp add: Cons_nth_drop_Suc)
    with "1.prems"(3) obtain v vs' where vs: "vs = v # vs'" "logp self (zs ! s) = Inr v"
        "map (logp self) (drop (Suc s) zs) = map Inr vs'"
      by (cases vs) auto
    have "pymc3_rows float32 self zs (s + 1) (lp[s := float32 v]) =
            Inr (take (s + 1) (lp[s := float32 v]) @ map float32 vs')"
      using True "1.prems" vs by (intro "1.IH") simp_all
    moreover have "take (s + 1) (lp[s := float32 v]) = take s lp @ [float32 v]"
      using True "1.prems"(2) by (simp add: take_Suc_conv_app_nth)
    ultimately show ?thesis
      using True vs by (simp add: pymc3_rows.simps[of float32 self zs s lp])
  qed
qed

lemma stan_rows_map:
  "model self = Some m \<Longrightarrow> map (row_log_prob m) zs = map Inr vs \<Longrightarrow> b + length zs \<le> length lp \<Longrightarrow>
     stan_rows float32 self b zs lp = Inr (take b lp @ map float32 vs @ drop (b + length zs) lp)"
proof (induction zs arbitrary: b lp vs)
  case Nil
  then show ?case by simp
next
  case (Cons z zs)
  then obtain v vs' where vs: "vs = v # vs'" "row_log_prob m z = Inr v"
      "map (row_log_prob m) zs = map Inr vs'"
    by (cases vs) auto
  let ?lp = "lp[b := float32 v]"
  have "stan_rows float32 self (b + 1) zs ?lp =
          Inr (take (b + 1) ?lp @ map float32 vs' @ drop ((b + 1) + length zs) ?lp)"
    using Cons.prems vs by (intro Cons.IH) simp_all
  moreover have "take (b + 1) ?lp = take b lp @ [float32 v]"
    using Cons.prems(3) by (simp add: take_Suc_conv_app_nth)
  moreover have "drop ((b + 1) + length zs) ?lp = drop (b + length (z # zs)) lp"
    by simp
  ultimately show ?case using Cons.prems(1) vs by simp
qed

lemma all_rows_return:
  "\<forall>z\<in>set zs. \<exists>v. f z = Inr v \<Longrightarrow> map f zs = map Inr (map (\<lambda>z. projr (f z)) zs)"
  by (induction zs) auto

lemma list2_eqI: "length xs = 2 \<Longrightarrow> xs ! 0 = a \<Longrightarrow> xs ! 1 = b \<Longrightarrow> xs = [a, b]"
  by (auto simp: length_Suc_conv numeral_2_eq_2)

text \<open>
  C8. For both adapters, when the log density of every row of a batch of \<open>S\<close> rows
  can be evaluated, \<open>_py_log_prob\<close> returns a vector of length \<open>S\<close> whose \<open>s\<close>-th
  entry is the log density of the \<open>s\<close>-th row (as stored in a \<open>float32\<close> array):
  one output per input row, in the order of the rows. For \<open>StanModel\<close> the log
  density of a row is \<open>row_log_prob\<close>, the body of the loop, on the initialized
  object.
\<close>

theorem py_log_prob_one_per_row:
  "((\<forall>z\<in>set zs. \<exists>v. logp pm z = Inr v) \<longrightarrow>
      (\<exists>lp. PyMC3Model_py_log_prob float32 pm zs = Inr lp \<and> length lp = length zs
         \<and> (\<forall>s<length zs. \<exists>v. logp pm (zs ! s) = Inr v \<and> lp ! s = float32 v)))
   \<and> (model self = Some m \<and> (\<forall>z\<in>set zs. \<exists>v. row_log_prob m z = Inr v) \<longrightarrow>
      (\<exists>lp. StanModel_py_log_prob float32 self zs = Inr lp \<and> length lp = length zs
         \<and> (\<forall>s<length zs. \<exists>v. row_log_prob m (zs ! s) = Inr v \<and> lp ! s = float32 v)))"
proof (intro conjI impI)
  assume a: "\<forall>z\<in>set zs. \<exists>v. logp pm z = Inr v"
  let ?vs = "map (\<lambda>z. projr (logp pm z)) zs"
  have m: "map (logp pm) zs = map Inr ?vs" by (rule all_rows_return[OF a])
  have "pymc3_rows float32 pm zs 0 (replicate (length zs) 0) =
          Inr (take 0 (replicate (length zs) 0) @ map float32 ?vs)"
    using pymc3_rows_map [of 0 zs "replicate (length zs) 0" pm ?vs float32] m by simp
  then have r: "PyMC3Model_py_log_prob float32 pm zs = Inr (map float32 ?vs)"
    by (simp add: PyMC3Model_py_log_prob_def)
  have "\<forall>s<length zs. \<exists>v. logp pm (zs ! s) = Inr v \<and> map float32 ?vs ! s = float32 v"
    using a by (auto simp: all_set_conv_all_nth)
  with r show "\<exists>lp. PyMC3Model_py_log_prob float32 pm zs = Inr lp \<and> length lp = length zs
         \<and> (\<forall>s<length zs. \<exists>v. logp pm (zs ! s) = Inr v \<and> lp ! s = float32 v)"
    by simp
next
  assume a: "model self = Some m \<and> (\<forall>z\<in>set zs. \<exists>v. row_log_prob m z = Inr v)"
  let ?vs = "map (\<lambda>z. projr (row_log_prob m z)) zs"
  have m: "map (row_log_prob m) zs = map Inr ?vs"
    by (rule all_rows_return) (use a in simp)
  from a have ms: "model self = Some m" by simp
  have "stan_rows float32 self 0 zs (replicate (length zs) 0) =
          Inr (take 0 (replicate (length zs) 0) @ map float32 ?vs
                 @ drop (0 + length zs) (replicate (length zs) 0))"
    using stan_rows_map [OF ms m, of 0 "replicate (length zs) 0" float32] by simp
  then have r: "StanModel_py_log_prob float32 self zs = Inr (map float32 ?vs)"
    by (simp add: StanModel_py_log_prob_def)
  have "\<forall>s<length zs. \<exists>v. row_log_prob m (zs ! s) = Inr v \<and> map float32 ?vs ! s = float32 v"
    using a by (auto simp: all_set_conv_all_nth)
  with r show "\<exists>lp. StanModel_py_log_prob float32 self zs = Inr lp \<and> length lp = length zs
         \<and> (\<forall>s<length zs. \<exists>v. row_log_prob m (zs ! s) = Inr v \<and> lp ! s = float32 v)"
    by simp
qed


theorem py_log_prob_one_per_row_witness:
  "PyMC3Model_py_log_prob id test_pymc3 [[1, 2], [3, 4]] = Inr [- 3, - 7]
   \<and> StanModel_py_log_prob id
        \<lparr>file_attr = Some ''model.stan'', model_code = None, flag_init = True,
         stan_num_vars = Some 3, model = Some (test_fit [[], [2]] [''mu'', ''theta''])\<rparr>
        [[1, 2, 3], [4, 5, 6]] = Inr [6, 15]"
proof -
  let ?zs = "[[1, 2], [3, 4 :: real]]" and ?zs' = "[[1, 2, 3], [4, 5, 6 :: real]]"
  let ?m = "test_fit [[], [2]] [''mu'', ''theta'']"
  let ?self = "\<lparr>file_attr = Some ''model.stan'', model_code = None, flag_init = True,
         stan_num_vars = Some 3, model = Some ?m\<rparr>"
  have row1: "row_log_prob ?m [1, 2, 3] = Inr 6" and row2: "row_log_prob ?m [4, 5, 6] = Inr 15"
    by (simp_all add: row_log_prob_def test_fit_def)
  have h1: "\<forall>z\<in>set ?zs. \<exists>v. logp test_pymc3 z = Inr v"
    by (simp add: test_pymc3_def)
  have h2: "model ?self = Some ?m \<and> (\<forall>z\<in>set ?zs'. \<exists>v. row_log_prob ?m z = Inr v)"
    by (simp add: row1 row2)
  from py_log_prob_one_per_row [where zs = ?zs and pm = test_pymc3 and ?float32.0 = id] h1
  obtain lp where lp: "PyMC3Model_py_log_prob id test_pymc3 ?zs = Inr lp" "length lp = length ?zs"
      "\<forall>s<length ?zs. \<exists>v. logp test_pymc3 (?zs ! s) = Inr v \<and> lp ! s = id v"
    by blast
  from lp(3)[rule_format, of 0] lp(3)[rule_format, of 1]
  have "lp ! 0 = - 3" "lp ! 1 = - 7" by (simp_all add: test_pymc3_def)
  with lp(2) have a: "lp = [- 3, - 7]" by (intro list2_eqI) simp_all
  from py_log_prob_one_per_row [where zs = ?zs' and self = ?self and m = ?m and ?float32.0 = id] h2
  obtain lp' where lp': "StanModel_py_log_prob id ?self ?zs' = Inr lp'" "length lp' = length ?zs'"
      "\<forall>s<length ?zs'. \<exists>v. row_log_prob ?m (?zs' ! s) = Inr v \<and> lp' ! s = id v"
    by blast
  from lp'(3)[rule_format, of 0] lp'(3)[rule_format, of 1]
  have "lp' ! 0 = 6" "lp' ! 1 = 15" by (simp_all add: row1 row2)
  with lp'(2) have b: "lp' = [6, 15]" by (intro list2_eqI) simp_all
  from lp(1) lp'(1) a b show ?thesis by simp
qed


subsection \<open>Initialization of a StanModel\<close>










subsection \<open>The length of a sample row\<close>

lemma one_dim_prod:
  "length dims \<le> 1 \<Longrightarrow> sum_list dims \<noteq> 0 \<Longrightarrow> prod_list dims = sum_list dims"
  by (cases dims) auto

lemma z_dict_loop_short:
  assumes "\<forall>p\<in>set ps. length (fst p) \<le> 1"
    and "length z < idx + sum_list (map (\<lambda>p. par_size (fst p)) ps)"
    and "idx \<le> length z"
  shows "z_dict_loop ps z idx d = Inl IndexError \<or> z_dict_loop ps z idx d = Inl ValueError"
  using assms
proof (induction ps arbitrary: idx d)
  case Nil
  then show ?case by simp
next
  case (Cons p ps)
  obtain dims par where p: "p = (dims, par)" by (cases p)
  have rest: "\<forall>p\<in>set ps. length (fst p) \<le> 1" using Cons.prems(1) by simp
  show ?case
  proof (cases "sum_list dims = 0")
    case True
    show ?thesis
    proof (cases "idx < length z")
      case False
      with True p show ?thesis by (simp del: sum_list_eq_0_iff)
    next
      case inb: True
      have "length z < (idx + 1) + sum_list (map (\<lambda>p. par_size (fst p)) ps)"
        using Cons.prems(2) True p by (simp add: par_size_def del: sum_list_eq_0_iff)
      moreover have "idx + 1 \<le> length z" using inb by simp
      ultimately show ?thesis using Cons.IH[OF rest, of "idx + 1"] True inb p
        by (simp del: sum_list_eq_0_iff)
    qed
  next
    case False
    have pr: "prod_list dims = sum_list dims"
      using Cons.prems(1) False p by (intro one_dim_prod) simp_all
    show ?thesis
    proof (cases "idx + sum_list dims \<le> length z")
      case False
      then have "length (take (sum_list dims) (drop idx z)) \<noteq> prod_list dims"
        using Cons.prems(3) pr by simp
      with \<open>sum_list dims \<noteq> 0\<close> p show ?thesis
        by (simp add: Let_def del: sum_list_eq_0_iff length_take length_drop)
    next
      case inb: True
      have "length z < (idx + sum_list dims) + sum_list (map (\<lambda>p. par_size (fst p)) ps)"
        using Cons.prems(2) False p by (simp add: par_size_def del: sum_list_eq_0_iff)
      then show ?thesis using Cons.IH[OF rest _ inb] False inb pr p
        by (simp add: Let_def del: sum_list_eq_0_iff)
    qed
  qed
qed

lemma z_dict_loop_extra:
  assumes "\<forall>p\<in>set ps. length (fst p) \<le> 1"
    and "idx + sum_list (map (\<lambda>p. par_size (fst p)) ps) \<le> length z"
  shows "z_dict_loop ps (z @ extra) idx d = z_dict_loop ps z idx d
    \<and> (\<exists>d'. z_dict_loop ps z idx d = Inr d')"
  using assms
proof (induction ps arbitrary: idx d)
  case Nil
  then show ?case by simp
next
  case (Cons p ps)
  obtain dims par where p: "p = (dims, par)" by (cases p)
  have rest: "\<forall>p\<in>set ps. length (fst p) \<le> 1" using Cons.prems(1) by simp
  show ?case
  proof (cases "sum_list dims = 0")
    case True
    have inb: "idx < length z" using Cons.prems(2) True p by (simp add: par_size_def del: sum_list_eq_0_iff)
    have "(idx + 1) + sum_list (map (\<lambda>p. par_size (fst p)) ps) \<le> length z"
      using Cons.prems(2) True p by (simp add: par_size_def del: sum_list_eq_0_iff)
    from Cons.IH[OF rest this] True inb p show ?thesis by (simp add: nth_append del: sum_list_eq_0_iff)
  next
    case False
    have pr: "prod_list dims = sum_list dims"
      using Cons.prems(1) False p by (intro one_dim_prod) simp_all
    have inb: "idx + sum_list dims \<le> length z"
      using Cons.prems(2) False p by (simp add: par_size_def del: sum_list_eq_0_iff)
    have "(idx + sum_list dims) + sum_list (map (\<lambda>p. par_size (fst p)) ps) \<le> length z"
      using Cons.prems(2) False p by (simp add: par_size_def del: sum_list_eq_0_iff)
    from Cons.IH[OF rest this] False inb pr p show ?thesis by (simp add: Let_def del: sum_list_eq_0_iff)
  qed
qed

lemma stan_rows_fail:
  "model self = Some m \<Longrightarrow> z \<in> set zs \<Longrightarrow> row_log_prob m z = Inl e \<Longrightarrow>
     \<exists>e'. stan_rows float32 self b zs lp = Inl e'"
  by (induction zs arbitrary: b lp) (auto split: sum.splits)

lemma stan_rows_cong:
  "model self = Some m \<Longrightarrow> map (row_log_prob m) zs = map (row_log_prob m) zs' \<Longrightarrow>
     stan_rows float32 self b zs lp = stan_rows float32 self b zs' lp"
proof (induction zs arbitrary: zs' b lp)
  case Nil
  then show ?case by simp
next
  case (Cons z zs)
  then obtain z' zs'' where "zs' = z' # zs''" "row_log_prob m z = row_log_prob m z'"
      "map (row_log_prob m) zs = map (row_log_prob m) zs''"
    by (cases zs') auto
  with Cons.IH[OF Cons.prems(1), of zs''] Cons.prems(1) show ?case
    by (simp split: sum.splits)
qed


lemma zip_par_sizes:
  assumes "length (model_pars m) = length (par_dims m)"
  shows "map (\<lambda>p. par_size (fst p)) (zip (par_dims m) (model_pars m)) = map par_size (par_dims m)"
proof -
  have "map fst (zip (par_dims m) (model_pars m)) = par_dims m"
    using assms by simp
  moreover have "map (\<lambda>p. par_size (fst p)) (zip (par_dims m) (model_pars m)) =
      map par_size (map fst (zip (par_dims m) (model_pars m)))"
    by simp
  ultimately show ?thesis by (simp only:)
qed

lemma row_log_prob_short:
  assumes one: "\<forall>p\<in>set ps. length (fst p) \<le> 1"
    and n: "n = sum_list (map (\<lambda>p. par_size (fst p)) ps)"
    and ps: "ps = zip (par_dims m) (model_pars m)"
    and short: "length z < n"
  shows "row_log_prob m z = Inl IndexError \<or> row_log_prob m z = Inl ValueError"
proof -
  have "length z < 0 + sum_list (map (\<lambda>p. par_size (fst p)) ps)"
    using short n by simp
  from z_dict_loop_short[OF one this, of "[]"]
  have "z_dict_loop ps z 0 [] = Inl IndexError \<or> z_dict_loop ps z 0 [] = Inl ValueError"
    by simp
  then show ?thesis
    unfolding row_log_prob_def ps by (elim disjE) simp_all
qed

lemma row_log_prob_long:
  assumes one: "\<forall>p\<in>set ps. length (fst p) \<le> 1"
    and n: "n = sum_list (map (\<lambda>p. par_size (fst p)) ps)"
    and ps: "ps = zip (par_dims m) (model_pars m)"
    and long: "n \<le> length z"
  shows "row_log_prob m z = row_log_prob m (take n z) \<and> (\<exists>d. z_dict_loop ps z 0 [] = Inr d)"
proof -
  have "0 + sum_list (map (\<lambda>p. par_size (fst p)) ps) \<le> length (take n z)"
    using long n by simp
  from z_dict_loop_extra[OF one this, of "drop n z" "[]"]
  show ?thesis by (simp add: row_log_prob_def ps)
qed

text \<open>
  C2, as the code has it. \<open>_py_log_prob\<close> has no check of the length of a row; a row
  fails only where the loop reads past its end. On an initialized \<open>StanModel\<close> whose
  parameters are all scalars or one-dimensional (so that the sum of a parameter's
  dimensions is the size of its shape), with \<open>n\<close> the sum of the declared parameter
  sizes: a row shorter than \<open>n\<close> raises IndexError or ValueError, and so does the
  call on any batch that has such a row, nothing being padded; a row longer than \<open>n\<close>
  is not an error: the dictionary is built from its first \<open>n\<close> entries and the
  entries after them are ignored, so the call on a batch of rows of length at least
  \<open>n\<close> returns what it returns on the rows cut to length \<open>n\<close>.
\<close>

theorem StanModel_row_length:
  assumes "model self = Some m"
    and "length (model_pars m) = length (par_dims m)"
    and "\<forall>dims\<in>set (par_dims m). length dims \<le> 1"
    and "n = sum_list (map par_size (par_dims m))"
  shows "(length z < n \<longrightarrow> row_log_prob m z = Inl IndexError \<or> row_log_prob m z = Inl ValueError)
    \<and> ((\<exists>z\<in>set zs. length z < n) \<longrightarrow> (\<exists>e. StanModel_py_log_prob float32 self zs = Inl e))
    \<and> (n \<le> length z \<longrightarrow> row_log_prob m z = row_log_prob m (take n z)
          \<and> (\<exists>d. z_dict_loop (zip (par_dims m) (model_pars m)) z 0 [] = Inr d))
    \<and> ((\<forall>z\<in>set zs. n \<le> length z) \<longrightarrow>
          StanModel_py_log_prob float32 self zs = StanModel_py_log_prob float32 self (map (take n) zs))"
proof -
  let ?ps = "zip (par_dims m) (model_pars m)"
  have one: "\<forall>p\<in>set ?ps. length (fst p) \<le> 1"
    using assms(3) by (auto dest: set_zip_leftD)
  have n: "n = sum_list (map (\<lambda>p. par_size (fst p)) ?ps)"
    unfolding zip_par_sizes[OF assms(2)] by (rule assms(4))
  note short = row_log_prob_short[OF one n refl]
  note long = row_log_prob_long[OF one n refl]
  have batch_short: "\<exists>e. StanModel_py_log_prob float32 self zs = Inl e"
    if "\<exists>z\<in>set zs. length z < n"
  proof -
    from that obtain z where z: "z \<in> set zs" "length z < n" by blast
    from short[OF z(2)] obtain e where "row_log_prob m z = Inl e" by blast
    from stan_rows_fail[OF assms(1) z(1) this] show ?thesis
      unfolding StanModel_py_log_prob_def by blast
  qed
  have batch_long: "StanModel_py_log_prob float32 self zs =
      StanModel_py_log_prob float32 self (map (take n) zs)"
    if "\<forall>z\<in>set zs. n \<le> length z"
  proof -
    have "row_log_prob m z = row_log_prob m (take n z)" if "z \<in> set zs" for z
      using long[of z] that \<open>\<forall>z\<in>set zs. n \<le> length z\<close> by blast
    then have "map (row_log_prob m) zs = map (\<lambda>z. row_log_prob m (take n z)) zs"
      by (intro map_cong refl)
    then have "map (row_log_prob m) zs = map (row_log_prob m) (map (take n) zs)"
      by (simp only: map_map o_def)
    from stan_rows_cong[OF assms(1) this] show ?thesis
      by (simp add: StanModel_py_log_prob_def)
  qed
  show ?thesis
  proof (intro conjI impI)
    assume "length z < n"
    then show "row_log_prob m z = Inl IndexError \<or> row_log_prob m z = Inl ValueError"
      by (rule short)
  next
    assume "\<exists>z\<in>set zs. length z < n"
    then show "\<exists>e. StanModel_py_log_prob float32 self zs = Inl e"
      by (rule batch_short)
  next
    assume "n \<le> length z"
    from long[OF this] show "row_log_prob m z = row_log_prob m (take n z)" ..
  next
    assume "n \<le> length z"
    from long[OF this]
    show "\<exists>d. z_dict_loop (zip (par_dims m) (model_pars m)) z 0 [] = Inr d" ..
  next
    assume "\<forall>z\<in>set zs. n \<le> length z"
    then show "StanModel_py_log_prob float32 self zs =
        StanModel_py_log_prob float32 self (map (take n) zs)"
      by (rule batch_long)
  qed
qed

theorem StanModel_row_length_witness:
  "(\<exists>e. StanModel_py_log_prob id
        \<lparr>file_attr = Some ''model.stan'', model_code = None, flag_init = True,
         stan_num_vars = Some 3, model = Some (test_fit [[], [2]] [''mu'', ''theta''])\<rparr>
        [[1, 2, 3], [4, 5]] = Inl e)
   \<and> StanModel_py_log_prob id
        \<lparr>file_attr = Some ''model.stan'', model_code = None, flag_init = True,
         stan_num_vars = Some 3, model = Some (test_fit [[], [2]] [''mu'', ''theta''])\<rparr>
        [[1, 2, 3, 4], [5, 6, 7]]
     = StanModel_py_log_prob id
        \<lparr>file_attr = Some ''model.stan'', model_code = None, flag_init = True,
         stan_num_vars = Some 3, model = Some (test_fit [[], [2]] [''mu'', ''theta''])\<rparr>
        [[1, 2, 3], [5, 6, 7]]"
proof -
  let ?m = "test_fit [[], [2]] [''mu'', ''theta'']"
  let ?self = "\<lparr>file_attr = Some ''model.stan'', model_code = None, flag_init = True,
         stan_num_vars = Some 3, model = Some ?m\<rparr>"
  have h1: "model ?self = Some ?m" by simp
  have h2: "length (model_pars ?m) = length (par_dims ?m)" by (simp add: test_fit_def)
  have h3: "\<forall>dims\<in>set (par_dims ?m). length dims \<le> 1" by (simp add: test_fit_def)
  have h4: "3 = sum_list (map par_size (par_dims ?m))" by (simp add: test_fit_def par_size_def)
  have t: "map (take 3) [[1, 2, 3, 4], [5, 6, 7 :: real]] = [[1, 2, 3], [5, 6, 7]]"
    by (simp add: numeral_3_eq_3)
  have s: "\<exists>z\<in>set [[1, 2, 3], [4, 5 :: real]]. length z < 3" by simp
  have l: "\<forall>z\<in>set [[1, 2, 3, 4], [5, 6, 7 :: real]]. 3 \<le> length z" by simp
  from StanModel_row_length [OF h1 h2 h3 h4, of "[]" "[[1, 2, 3], [4, 5]]" id] s
  have a: "\<exists>e. StanModel_py_log_prob id ?self [[1, 2, 3], [4, 5]] = Inl e"
    by blast
  from StanModel_row_length [OF h1 h2 h3 h4, of "[]" "[[1, 2, 3, 4], [5, 6, 7]]" id] l
  have "StanModel_py_log_prob id ?self [[1, 2, 3, 4], [5, 6, 7]] =
      StanModel_py_log_prob id ?self (map (take 3) [[1, 2, 3, 4], [5, 6, 7]])"
    by blast
  then have b: "StanModel_py_log_prob id ?self [[1, 2, 3, 4], [5, 6, 7]] =
      StanModel_py_log_prob id ?self [[1, 2, 3], [5, 6, 7]]"
    unfolding t .
  from a b show ?thesis ..
qed

text \<open>
  C2 as stated fails for a row that is too long: with a scalar and a vector of two
  entries declared (three entries in all), a row of four entries gives a result, the
  log density of its first three entries.
\<close>

theorem StanModel_long_row_counterexample:
  "StanModel_py_log_prob id
     \<lparr>file_attr = Some ''model.stan'', model_code = None, flag_init = True,
      stan_num_vars = Some 3, model = Some (test_fit [[], [2]] [''mu'', ''theta''])\<rparr>
     [[1, 2, 3, 4]] = Inr [6]"
  by (simp add: StanModel_py_log_prob_def row_log_prob_def test_fit_def)

end
